theory Spec2Isabelle
  imports Main "HOL-Library.DAList" "HOL-Library.Sublist"
begin

section \<open>Values, maps and the Go heap\<close>

text \<open>
  A Go map is a reference. The heap lists the contents of every allocated map; a
  reference is an index into it.
\<close>

type_synonym addr = nat

text \<open>
  A field value is a Go \<^verbatim>\<open>interface{}\<close>. The code inspects a value in one place only,
  the type assertion \<^verbatim>\<open>v.(sq.Sqlizer)\<close> of \<^verbatim>\<open>parseSelectValues\<close>, so the model keeps
  a few scalar shapes, one constructor for the values that implement \<^verbatim>\<open>sq.Sqlizer\<close>
  (such as \<^verbatim>\<open>sq.Expr("CURRENT_TIMESTAMP")\<close>) and one for the values that are
  references: \<open>MapV a\<close> is a map held in the interface, by its address, and stands for
  every value (map, slice, pointer) whose assignment shares the object it refers to. The
  assertion fails on the nil interface, which is therefore a scalar here.
\<close>

datatype val = NilV | BoolV bool | IntV int | StrV string | SqlizerV string | MapV addr

fun is_Sqlizer :: "val \<Rightarrow> bool" where
  "is_Sqlizer (SqlizerV e) = True"
| "is_Sqlizer v = False"

text \<open>
  \<^verbatim>\<open>type RelationValues map[string]interface{}\<close>: a finite map with unique keys. Its
  contents are an association list with distinct keys; the order of the list is the order
  in which a \<^verbatim>\<open>range\<close> loop of that run visits the entries.
\<close>

type_synonym RelationValues = "(string, val) alist"

text \<open>
  \<^verbatim>\<open>getDefaultRelationValues\<close> allocates a map with \<^verbatim>\<open>make\<close>, which returns the
  first index not yet in use, and writes through the reference. A reference held by the
  table of defaults is the index of an allocated map; a nil map, which this code only
  reads and which Go reads as a map without entries, is an allocated map without entries.
\<close>

type_synonym heap = "RelationValues list"

definition make_map :: "heap \<Rightarrow> addr \<times> heap" where
  "make_map h = (length h, h @ [DAList.empty])"

definition deref :: "heap \<Rightarrow> addr \<Rightarrow> RelationValues" where
  "deref h a = h ! a"

definition store :: "heap \<Rightarrow> addr \<Rightarrow> string \<Rightarrow> val \<Rightarrow> heap" where
  "store h a k v = h[a := DAList.update k v (h ! a)]"

text \<open>
  \<^verbatim>\<open>type RelationValuesOption func(RelationValues)\<close>: a closure. Called with a
  reference, it may write to the map it receives, to a map that a value of it refers to
  and to any map it holds itself: it is what the call does to the heap.
\<close>

type_synonym RelationValuesOption = "addr \<Rightarrow> heap \<Rightarrow> heap"

section \<open>The collaborators: squirrel, database/sql, testing\<close>

text \<open>
  An error value. \<^verbatim>\<open>sql.ErrNoRows\<close> is the one error the code compares against.
  \<open>Error\<close> is the text that the verbs \<^verbatim>\<open>%s\<close> and \<^verbatim>\<open>%+v\<close> of the messages print
  for it.
\<close>

datatype err = ErrNoRows | Err string

fun Error :: "err \<Rightarrow> string" where
  "Error ErrNoRows = ''sql: no rows in result set''"
| "Error (Err s) = s"

text \<open>
  The state of a squirrel builder when it is turned into SQL: what the code has put into
  it. \<^verbatim>\<open>sq.Eq(m)\<close> is kept as the contents of \<^verbatim>\<open>m\<close>.
\<close>

record SelectBuilder =
  sel_Columns :: "string list"
  sel_From :: string
  sel_Where :: "RelationValues list"
  sel_Limit :: "nat option"

record InsertBuilder =
  ins_Into :: string
  ins_SetMap :: "RelationValues option"
  ins_Suffix :: "string list"

datatype stmt = SelectStmt SelectBuilder | InsertStmt InsertBuilder

text \<open>
  The calls that reach the database, in the order they are made.
\<close>

datatype event = Begin | QueryRow stmt | TxQuery stmt | DbQuery stmt | Commit | Rollback

text \<open>
  The collaborators answer as functions of their own state \<open>'s\<close>: \<^verbatim>\<open>ToSql\<close> of a
  builder (\<open>None\<close> is a nil error; the statement text and arguments are represented by the
  builder they are rendered from), \<^verbatim>\<open>db.Begin\<close>, \<^verbatim>\<open>tx.QueryRow(...).Scan()\<close>,
  \<^verbatim>\<open>tx.Query\<close>, \<^verbatim>\<open>tx.Commit\<close>, \<^verbatim>\<open>tx.Rollback\<close> and \<^verbatim>\<open>db.Query\<close>.
\<close>

record 's driver =
  ToSql :: "stmt \<Rightarrow> err option"
  db_Begin :: "'s \<Rightarrow> err option \<times> 's"
  tx_QueryRow_Scan :: "stmt \<Rightarrow> 's \<Rightarrow> err option \<times> 's"
  tx_Query :: "stmt \<Rightarrow> 's \<Rightarrow> err option \<times> 's"
  tx_Commit :: "'s \<Rightarrow> err option \<times> 's"
  tx_Rollback :: "'s \<Rightarrow> err option \<times> 's"
  db_Query :: "stmt \<Rightarrow> 's \<Rightarrow> err option \<times> 's"

record 's world =
  heap :: heap
  db :: 's
  trace :: "event list"

text \<open>
  \<^verbatim>\<open>t.Fatalf\<close> logs the message and stops the goroutine of the test: a computation
  returns \<open>Inl message\<close> when it ended in \<^verbatim>\<open>Fatalf\<close> and \<open>Inr result\<close> otherwise, with
  the world it left behind.
\<close>

type_synonym ('s, 'a) run = "'s world \<Rightarrow> (string + 'a) \<times> 's world"

definition Fatalf :: "string \<Rightarrow> ('s, 'a) run" where
  "Fatalf msg w = (Inl msg, w)"

definition return :: "'a \<Rightarrow> ('s, 'a) run" where
  "return x w = (Inr x, w)"

definition bind :: "('s, 'a) run \<Rightarrow> ('a \<Rightarrow> ('s, 'b) run) \<Rightarrow> ('s, 'b) run" where
  "bind m f w = (case m w of (Inl msg, w') \<Rightarrow> (Inl msg, w') | (Inr x, w') \<Rightarrow> f x w')"

definition quoted :: "string \<Rightarrow> string" where
  "quoted s = [CHR 0x27] @ s @ [CHR 0x27]"

text \<open>
  One call of a collaborator: its answer is taken in the current database state, the
  state moves on and the call is appended to the trace.
\<close>

definition call :: "event \<Rightarrow> ('s \<Rightarrow> err option \<times> 's) \<Rightarrow> 's world \<Rightarrow> err option \<times> 's world" where
  "call ev f w = (case f (db w) of (e, s) \<Rightarrow> (e, w\<lparr>db := s, trace := trace w @ [ev]\<rparr>))"

section \<open>The manager\<close>

record 's dbManager =
  driver :: "'s driver"
  defaultRelationValues :: "string \<rightharpoonup> addr"

text \<open>\<^verbatim>\<open>SetFieldValue\<close> (the variant with \<^verbatim>\<open>Create\<close>): \<^verbatim>\<open>values[f] = v\<close>.\<close>

definition SetFieldValue :: "string \<Rightarrow> val \<Rightarrow> RelationValuesOption" where
  "SetFieldValue f v = (\<lambda>values h. store h values f v)"

text \<open>
  \<^verbatim>\<open>getDefaultRelationValues\<close> (the same in the three variants): the lookup, the
  \<^verbatim>\<open>Fatalf\<close> on a missing key, then \<^verbatim>\<open>make\<close> and the loop
  \<^verbatim>\<open>for k, v := range defaultValue { values[k] = v }\<close>.
\<close>

definition getDefaultRelationValues :: "'s dbManager \<Rightarrow> string \<Rightarrow> ('s, addr) run" where
  "getDefaultRelationValues dbMan relationName w =
     (case defaultRelationValues dbMan relationName of
        None \<Rightarrow> Fatalf (''no default values for relation '' @ quoted relationName) w
      | Some defaultValue \<Rightarrow>
          (case make_map (heap w) of (values, h) \<Rightarrow>
             (Inr values,
              w\<lparr>heap := fold (\<lambda>(k, v) h'. store h' values k v)
                              (DAList.impl_of (deref h defaultValue)) h\<rparr>)))"

text \<open>
  \<^verbatim>\<open>relationValues\<close> (the same in the three variants): the copy, then
  \<^verbatim>\<open>for _, opt := range opts { opt(defaultVal) }\<close>.
\<close>

definition relationValues ::
  "'s dbManager \<Rightarrow> string \<Rightarrow> RelationValuesOption list \<Rightarrow> ('s, addr) run" where
  "relationValues dbMan relationName opts =
     bind (getDefaultRelationValues dbMan relationName) (\<lambda>defaultVal w.
       (Inr defaultVal, w\<lparr>heap := fold (\<lambda>opt h. opt defaultVal h) opts (heap w)\<rparr>))"

subsection \<open>The variant with a transaction\<close>

text \<open>
  \<^verbatim>\<open>parseSelectValues\<close>: a fresh map that receives the entries whose value does not
  implement \<^verbatim>\<open>sq.Sqlizer\<close>. The map is local and read once, so it is a value here.
\<close>

definition parseSelectValues :: "RelationValues \<Rightarrow> RelationValues" where
  "parseSelectValues originalValues =
     fold (\<lambda>(k, v) values. if \<not> is_Sqlizer v then DAList.update k v values else values)
          (DAList.impl_of originalValues) DAList.empty"

definition selectBuilder :: "string \<Rightarrow> SelectBuilder" where
  "selectBuilder tableName =
     \<lparr>sel_Columns = [''''], sel_From = tableName, sel_Where = [], sel_Limit = None\<rparr>"

definition insertBuilder :: "string \<Rightarrow> InsertBuilder" where
  "insertBuilder tableName = \<lparr>ins_Into = tableName, ins_SetMap = None, ins_Suffix = []\<rparr>"

definition checkIfExisting_builder :: "string \<Rightarrow> RelationValues \<Rightarrow> SelectBuilder" where
  "checkIfExisting_builder tableName values =
     (let selectValues = parseSelectValues values in
      (selectBuilder tableName)
        \<lparr>sel_Where := sel_Where (selectBuilder tableName) @ [selectValues], sel_Limit := Some 1\<rparr>)"

text \<open>
  \<^verbatim>\<open>checkIfExisting\<close> returns the error of \<^verbatim>\<open>ToSql\<close>, else the error of
  \<^verbatim>\<open>row.Scan()\<close>, else nil.
\<close>

definition checkIfExisting ::
  "'s dbManager \<Rightarrow> string \<Rightarrow> addr \<Rightarrow> 's world \<Rightarrow> err option \<times> 's world" where
  "checkIfExisting dbMan tableName values w =
     (let builder = SelectStmt (checkIfExisting_builder tableName (deref (heap w) values)) in
      case ToSql (driver dbMan) builder of
        Some e \<Rightarrow> (Some e, w)
      | None \<Rightarrow> call (QueryRow builder) (tx_QueryRow_Scan (driver dbMan) builder) w)"

definition rollback :: "'s dbManager \<Rightarrow> ('s, unit) run" where
  "rollback dbMan w =
     (case call Rollback (tx_Rollback (driver dbMan)) w of
        (Some e, w') \<Rightarrow> Fatalf (''Test setup failed: failed to rollback: '' @ Error e) w'
      | (None, w') \<Rightarrow> return () w')"

definition commit :: "'s dbManager \<Rightarrow> ('s, unit) run" where
  "commit dbMan w =
     (case call Commit (tx_Commit (driver dbMan)) w of
        (Some commitErr, w') \<Rightarrow>
          Fatalf (''Test setup failed: could not commit transaction: '' @ Error commitErr) w'
      | (None, w') \<Rightarrow> return () w')"

definition ResolveTestRecord ::
  "'s dbManager \<Rightarrow> string \<Rightarrow> string \<Rightarrow> RelationValuesOption list \<Rightarrow> ('s, unit) run" where
  "ResolveTestRecord dbMan tableName stringID opts =
     bind (relationValues dbMan tableName opts) (\<lambda>values w.
       case call Begin (db_Begin (driver dbMan)) w of
         (Some e, w1) \<Rightarrow>
           Fatalf (''Test setup failed: could not start transaction: '' @ Error e) w1
       | (None, w1) \<Rightarrow>
           (case checkIfExisting dbMan tableName values w1 of (e, w2) \<Rightarrow>
              if e = Some ErrNoRows then
                (let builder = InsertStmt ((insertBuilder tableName)
                                 \<lparr>ins_SetMap := Some (deref (heap w2) values)\<rparr>) in
                 case ToSql (driver dbMan) builder of
                   Some e1 \<Rightarrow>
                     bind (rollback dbMan) (\<lambda>_.
                       Fatalf (''Test setup failed: could not generate sql string for ''
                               @ quoted tableName @ '': '' @ Error e1)) w2
                 | None \<Rightarrow>
                     (case call (TxQuery builder) (tx_Query (driver dbMan) builder) w2 of
                        (Some e2, w3) \<Rightarrow>
                          bind (rollback dbMan) (\<lambda>_.
                            Fatalf (''Test setup failed: could not create test record for ''
                                    @ quoted tableName @ '': '' @ Error e2)) w3
                      | (None, w3) \<Rightarrow> commit dbMan w3))
              else if e \<noteq> None then
                bind (rollback dbMan) (\<lambda>_.
                  Fatalf (''failed during checkIfExisting '' @ Error (the e))) w2
              else commit dbMan w2))"

subsection \<open>The variant without a transaction\<close>

text \<open>
  \<^verbatim>\<open>insertBuilder\<close> of this variant binds the builder to \<^verbatim>\<open>dbMan.db\<close>, and
  \<^verbatim>\<open>Query()\<close> of such a builder is squirrel's \<^verbatim>\<open>QueryWith\<close>: \<^verbatim>\<open>ToSql\<close>, its
  error returned if there is one, else \<^verbatim>\<open>db.Query\<close> of the statement.
\<close>

definition builder_Query :: "'s dbManager \<Rightarrow> stmt \<Rightarrow> 's world \<Rightarrow> err option \<times> 's world" where
  "builder_Query dbMan builder w =
     (case ToSql (driver dbMan) builder of
        Some e \<Rightarrow> (Some e, w)
      | None \<Rightarrow> call (DbQuery builder) (db_Query (driver dbMan) builder) w)"

text \<open>
  \<^verbatim>\<open>Create\<close>; \<^verbatim>\<open>ResolveTestRecord\<close> of the first variant of \<^verbatim>\<open>manager.go\<close> has the
  same body.
\<close>

definition Create :: "'s dbManager \<Rightarrow> string \<Rightarrow> RelationValuesOption list \<Rightarrow> ('s, unit) run" where
  "Create dbMan tableName opts =
     bind (relationValues dbMan tableName opts) (\<lambda>values w.
       case builder_Query dbMan
              (InsertStmt ((insertBuilder tableName)
                 \<lparr>ins_SetMap := Some (deref (heap w) values),
                  ins_Suffix := ins_Suffix (insertBuilder tableName) @ [''ON CONFLICT DO NOTHING'']\<rparr>)) w of
         (Some e, w') \<Rightarrow>
           Fatalf (''Test setup failed: could not create test record for ''
                   @ quoted tableName @ '': '' @ Error e) w'
       | (None, w') \<Rightarrow> return () w')"

section \<open>What the check asks of the database\<close>

text \<open>
  The database is not part of the manager. Where a property depends on how the database
  answers the statement of \<^verbatim>\<open>checkIfExisting\<close>, the statement is read as SQL: the rows
  of the relation that satisfy every equality of every \<^verbatim>\<open>Where\<close> part, cut at the
  limit; \<^verbatim>\<open>Scan\<close> of the row returns \<^verbatim>\<open>sql.ErrNoRows\<close> when none is left and nil
  otherwise (no column is selected and no destination is passed).
\<close>

type_synonym row = "string \<rightharpoonup> val"

definition row_matches :: "RelationValues \<Rightarrow> row \<Rightarrow> bool" where
  "row_matches eq r = list_all (\<lambda>(k, v). r k = Some v) (DAList.impl_of eq)"

definition select_scan :: "SelectBuilder \<Rightarrow> row list \<Rightarrow> err option" where
  "select_scan b rows =
     (let found = filter (\<lambda>r. list_all (\<lambda>eq. row_matches eq r) (sel_Where b)) rows;
          limited = (case sel_Limit b of None \<Rightarrow> found | Some n \<Rightarrow> take n found)
      in if limited = [] then Some ErrNoRows else None)"

section \<open>Example managers\<close>

text \<open>
  A table of defaults with two relations, the second with expression values only, and
  drivers that answer the existence check and the insert in a fixed way.
\<close>

definition users_defaults :: RelationValues where
  "users_defaults =
     DAList.update ''created_at'' (SqlizerV ''CURRENT_TIMESTAMP'')
       (DAList.update ''name'' (StrV ''Alice'')
         (DAList.update ''id'' (StrV ''u1'') DAList.empty))"

definition stamps_defaults :: RelationValues where
  "stamps_defaults = DAList.update ''created_at'' (SqlizerV ''CURRENT_TIMESTAMP'') DAList.empty"

definition ex_world :: "unit world" where
  "ex_world = \<lparr>heap = [users_defaults, stamps_defaults], db = (), trace = []\<rparr>"

definition ex_defaults :: "string \<rightharpoonup> addr" where
  "ex_defaults = [''users'' \<mapsto> 0, ''stamps'' \<mapsto> 1]"

definition scripted :: "(stmt \<Rightarrow> err option) \<Rightarrow> err option \<Rightarrow> err option \<Rightarrow> unit driver" where
  "scripted chk ins rb =
     \<lparr>ToSql = (\<lambda>q. None),
      db_Begin = (\<lambda>s. (None, s)),
      tx_QueryRow_Scan = (\<lambda>q s. (chk q, s)),
      tx_Query = (\<lambda>q s. (ins, s)),
      tx_Commit = (\<lambda>s. (None, s)),
      tx_Rollback = (\<lambda>s. (rb, s)),
      db_Query = (\<lambda>q s. (ins, s))\<rparr>"

definition ex_dbMan :: "(stmt \<Rightarrow> err option) \<Rightarrow> err option \<Rightarrow> err option \<Rightarrow> unit dbManager" where
  "ex_dbMan chk ins rb = \<lparr>driver = scripted chk ins rb, defaultRelationValues = ex_defaults\<rparr>"

definition found :: "stmt \<Rightarrow> err option" where
  "found q = None"

definition no_rows :: "stmt \<Rightarrow> err option" where
  "no_rows q = Some ErrNoRows"

definition refused :: "stmt \<Rightarrow> err option" where
  "refused q = Some (Err ''connection refused'')"

definition one_row :: "row list" where
  "one_row = [Map.empty(''created_at'' \<mapsto> StrV ''2019-01-01'')]"

definition scan_one_row :: "stmt \<Rightarrow> err option" where
  "scan_one_row q = (case q of SelectStmt b \<Rightarrow> select_scan b one_row
                     | InsertStmt b \<Rightarrow> Some (Err ''not a query''))"

definition insert_unbuildable :: "stmt \<Rightarrow> err option" where
  "insert_unbuildable q = (case q of SelectStmt b \<Rightarrow> None
                           | InsertStmt b \<Rightarrow> Some (Err ''no table''))"

definition no_insert_sql :: "unit dbManager" where
  "no_insert_sql =
     \<lparr>driver = (scripted no_rows None None)\<lparr>ToSql := insert_unbuildable\<rparr>,
      defaultRelationValues = ex_defaults\<rparr>"

text \<open>
  A driver whose state counts the statements that \<^verbatim>\<open>db.Query\<close> has executed.
\<close>

definition counting :: "nat driver" where
  "counting =
     \<lparr>ToSql = (\<lambda>q. None),
      db_Begin = (\<lambda>s. (None, s)),
      tx_QueryRow_Scan = (\<lambda>q s. (None, s)),
      tx_Query = (\<lambda>q s. (None, Suc s)),
      tx_Commit = (\<lambda>s. (None, s)),
      tx_Rollback = (\<lambda>s. (None, s)),
      db_Query = (\<lambda>q s. (None, Suc s))\<rparr>"

definition counting_dbMan :: "nat dbManager" where
  "counting_dbMan = \<lparr>driver = counting, defaultRelationValues = ex_defaults\<rparr>"

definition counting_world :: "nat world" where
  "counting_world = \<lparr>heap = [users_defaults, stamps_defaults], db = 0, trace = []\<rparr>"

text \<open>
  Defaults with a value that is a reference: the map of \<^verbatim>\<open>users\<close> holds, under
  \<^verbatim>\<open>settings\<close>, the map at address 1. Two options that do not stop at the map they
  are given: \<^verbatim>\<open>func(v RelationValues) { v["settings"].(RelationValues)["lang"] = "fr" }\<close>
  and a closure that holds the stored map of \<^verbatim>\<open>users\<close> and sets its \<^verbatim>\<open>id\<close>.
\<close>

definition account_defaults :: RelationValues where
  "account_defaults =
     DAList.update ''settings'' (MapV 1) (DAList.update ''id'' (StrV ''u1'') DAList.empty)"

definition settings_map :: RelationValues where
  "settings_map = DAList.update ''lang'' (StrV ''en'') DAList.empty"

definition shared_world :: "unit world" where
  "shared_world = \<lparr>heap = [account_defaults, settings_map], db = (), trace = []\<rparr>"

definition shared_dbMan :: "unit dbManager" where
  "shared_dbMan =
     \<lparr>driver = scripted found None None, defaultRelationValues = [''users'' \<mapsto> 0]\<rparr>"

definition set_lang :: RelationValuesOption where
  "set_lang values h =
     (case DAList.lookup (deref h values) ''settings'' of
        Some (MapV b) \<Rightarrow> store h b ''lang'' (StrV ''fr'')
      | _ \<Rightarrow> h)"

definition set_stored_id :: RelationValuesOption where
  "set_stored_id values h = store h 0 ''id'' (StrV ''u9'')"

text \<open>
  An option that writes to the map it is given and to no other: on every heap that
  holds the reference, the call keeps the number of maps and the contents of every other
  map.
\<close>

definition writes_argument_only :: "RelationValuesOption \<Rightarrow> bool" where
  "writes_argument_only opt =
     (\<forall>values h. values < length h \<longrightarrow>
        length (opt values h) = length h \<and>
        (\<forall>b. b < length h \<and> b \<noteq> values \<longrightarrow> opt values h ! b = h ! b))"

text \<open>
  A manager whose table of defaults has the empty relation name as a key; squirrel
  builds no insert without a table name.
\<close>

definition needs_table :: "stmt \<Rightarrow> err option" where
  "needs_table q =
     (case q of
        SelectStmt b \<Rightarrow> None
      | InsertStmt b \<Rightarrow>
          if ins_Into b = '''' then Some (Err ''insert statements must specify a table'')
          else None)"

definition unnamed_dbMan :: "unit dbManager" where
  "unnamed_dbMan =
     \<lparr>driver = (scripted found None None)\<lparr>ToSql := needs_table\<rparr>,
      defaultRelationValues = Map.empty('''' \<mapsto> 0)\<rparr>"

section \<open>The copy of the defaults and the overrides\<close>

lemma fold_AList_update_append:
  "distinct (map fst (ys @ xs)) \<Longrightarrow>
   fold (\<lambda>(k, v). AList.update k v) xs ys = ys @ xs"
proof (induction xs arbitrary: ys)
  case Nil
  then show ?case by simp
next
  case (Cons x xs)
  obtain k v where x: "x = (k, v)" by (cases x)
  from Cons.prems have notin: "k \<notin> fst ` set ys" by (auto simp: x)
  then have upd: "AList.update k v ys = ys @ [(k, v)]"
    by (induction ys) auto
  from Cons.prems have "distinct (map fst ((ys @ [(k, v)]) @ xs))" by (simp add: x)
  from Cons.IH [OF this] show ?case by (simp add: x upd)
qed

lemma impl_of_fold_update:
  "DAList.impl_of (fold (\<lambda>(k, v). DAList.update k v) xs m) =
   fold (\<lambda>(k, v). AList.update k v) xs (DAList.impl_of m)"
  by (induction xs arbitrary: m) (auto simp: DAList.update.rep_eq)

lemma copy_loop: "fold (\<lambda>(k, v). DAList.update k v) (DAList.impl_of d) DAList.empty = d"
  by (simp add: DAList.alist_eq_iff impl_of_fold_update DAList.empty.rep_eq
      fold_AList_update_append)

lemma fold_store:
  "a < length h \<Longrightarrow>
   fold (\<lambda>(k, v) h'. store h' a k v) xs h =
   h[a := fold (\<lambda>(k, v). DAList.update k v) xs (h ! a)]"
  by (induction xs arbitrary: h) (auto simp: store_def)

lemma fold_SetFieldValue:
  "a < length h \<Longrightarrow>
   fold (\<lambda>opt h'. opt a h') (map (\<lambda>(f, v). SetFieldValue f v) ovs) h =
   h[a := fold (\<lambda>(f, v). DAList.update f v) ovs (h ! a)]"
  by (induction ovs arbitrary: h) (auto simp: SetFieldValue_def store_def)

lemma getDefaultRelationValues_known:
  assumes "defaultRelationValues dbMan relationName = Some a" and "a < length (heap w)"
  shows "getDefaultRelationValues dbMan relationName w =
           (Inr (length (heap w)), w\<lparr>heap := heap w @ [deref (heap w) a]\<rparr>)"
  using assms
  by (simp add: getDefaultRelationValues_def make_map_def fold_store deref_def nth_append
      copy_loop)

lemma relationValues_known:
  assumes "defaultRelationValues dbMan relationName = Some a" and "a < length (heap w)"
  shows "relationValues dbMan relationName opts w =
           (Inr (length (heap w)),
            w\<lparr>heap := fold (\<lambda>opt h. opt (length (heap w)) h) opts
                         (heap w @ [deref (heap w) a])\<rparr>)"
  using assms
  by (simp add: relationValues_def bind_def getDefaultRelationValues_known)

lemma relationValues_unknown:
  assumes "defaultRelationValues dbMan relationName = None"
  shows "relationValues dbMan relationName opts w =
           (Inl (''no default values for relation '' @ quoted relationName), w)"
  using assms
  by (simp add: relationValues_def bind_def getDefaultRelationValues_def Fatalf_def)

lemma ex_world_simps:
  "heap ex_world = [users_defaults, stamps_defaults]" "db ex_world = ()" "trace ex_world = []"
  by (simp_all add: ex_world_def)

lemma ex_dbMan_simps:
  "defaultRelationValues (ex_dbMan chk ins rb) ''users'' = Some 0"
  "defaultRelationValues (ex_dbMan chk ins rb) ''stamps'' = Some 1"
  "defaultRelationValues (ex_dbMan chk ins rb) ''orders'' = None"
  "ToSql (driver (ex_dbMan chk ins rb)) q = None"
  "db_Begin (driver (ex_dbMan chk ins rb)) s = (None, s)"
  "tx_QueryRow_Scan (driver (ex_dbMan chk ins rb)) q s = (chk q, s)"
  "tx_Query (driver (ex_dbMan chk ins rb)) q s = (ins, s)"
  "tx_Commit (driver (ex_dbMan chk ins rb)) s = (None, s)"
  "tx_Rollback (driver (ex_dbMan chk ins rb)) s = (rb, s)"
  "db_Query (driver (ex_dbMan chk ins rb)) q s = (ins, s)"
  by (simp_all add: ex_dbMan_def ex_defaults_def scripted_def)

text \<open>
  C6. For a relation name that is a key of the table of defaults, resolving with no
  override returns a fresh map whose contents are the stored defaults of that relation,
  keys and values alike.
\<close>

theorem relationValues_no_overrides:
  assumes "defaultRelationValues dbMan relationName = Some a" and "a < length (heap w)"
  shows "fst (relationValues dbMan relationName [] w) = Inr (length (heap w)) \<and>
         deref (heap (snd (relationValues dbMan relationName [] w))) (length (heap w)) =
           deref (heap w) a"
  using assms by (simp add: relationValues_known deref_def)

theorem relationValues_no_overrides_witness:
  "defaultRelationValues (ex_dbMan found None None) ''users'' = Some 0 \<and>
   0 < length (heap ex_world) \<and>
   fst (relationValues (ex_dbMan found None None) ''users'' [] ex_world) = Inr 2 \<and>
   deref (heap (snd (relationValues (ex_dbMan found None None) ''users'' [] ex_world))) 2 =
     users_defaults"
proof -
  have h1: "defaultRelationValues (ex_dbMan found None None) ''users'' = Some 0"
    by (simp add: ex_dbMan_simps)
  have h2: "0 < length (heap ex_world)"
    by (simp add: ex_world_simps)
  from relationValues_no_overrides [OF h1 h2] h1 h2 show ?thesis
    by (simp add: ex_world_simps deref_def numeral_2_eq_2)
qed

lemma lookup_fold_update:
  "DAList.lookup (fold (\<lambda>(f, v). DAList.update f v) ovs d) k =
     (case map_of (rev ovs) k of Some v \<Rightarrow> Some v | None \<Rightarrow> DAList.lookup d k)"
proof (induction ovs rule: rev_induct)
  case Nil
  then show ?case by simp
next
  case (snoc p ovs)
  obtain f v where p: "p = (f, v)" by (cases p)
  from snoc.IH show ?case
    by (simp add: p DAList.lookup_update)
qed

text \<open>
  C5. The overrides are applied in call order to the copy of the relation's defaults:
  the heap after the call is the heap with the copy, taken through the options from left
  to right, each called with the copy. For overrides built by \<^verbatim>\<open>SetFieldValue\<close> the
  copy ends as the defaults updated in that order, so the resolved value of a key is the
  value of the last override for that key and, when no override names the key, the
  default.
\<close>

theorem relationValues_overrides_in_order:
  assumes "defaultRelationValues dbMan relationName = Some a" and "a < length (heap w)"
  shows "fst (relationValues dbMan relationName opts w) = Inr (length (heap w)) \<and>
         heap (snd (relationValues dbMan relationName opts w)) =
           fold (\<lambda>opt h. opt (length (heap w)) h) opts (heap w @ [deref (heap w) a]) \<and>
         deref (heap (snd (relationValues dbMan relationName
                             (map (\<lambda>(f, v). SetFieldValue f v) ovs) w)))
               (length (heap w)) =
           fold (\<lambda>(f, v). DAList.update f v) ovs (deref (heap w) a) \<and>
         DAList.lookup
           (deref (heap (snd (relationValues dbMan relationName
                                (map (\<lambda>(f, v). SetFieldValue f v) ovs) w)))
                  (length (heap w))) k =
           (case map_of (rev ovs) k of
              Some v \<Rightarrow> Some v
            | None \<Rightarrow> DAList.lookup (deref (heap w) a) k)"
  using assms
  by (simp add: relationValues_known fold_SetFieldValue lookup_fold_update deref_def
      cong: option.case_cong)

theorem relationValues_overrides_in_order_witness:
  "defaultRelationValues (ex_dbMan found None None) ''users'' = Some 0 \<and>
   0 < length (heap ex_world) \<and>
   DAList.lookup
     (deref (heap (snd (relationValues (ex_dbMan found None None) ''users''
                          [SetFieldValue ''id'' (StrV ''u2''), SetFieldValue ''id'' (StrV ''u3'')]
                          ex_world))) 2) ''id'' = Some (StrV ''u3'')"
proof -
  have h1: "defaultRelationValues (ex_dbMan found None None) ''users'' = Some 0"
    by (simp add: ex_dbMan_simps)
  have h2: "0 < length (heap ex_world)"
    by (simp add: ex_world_simps)
  from relationValues_overrides_in_order [OF h1 h2,
      of "[]" "[(''id'', StrV ''u2''), (''id'', StrV ''u3'')]" "''id''"] h1 h2
  show ?thesis
    by (simp add: ex_world_simps numeral_2_eq_2)
qed

section \<open>The stored defaults are left alone\<close>

lemma heap_call: "heap (snd (call ev f w)) = heap w"
  by (simp add: call_def split: prod.splits)

lemma heap_commit: "heap (snd (commit dbMan w)) = heap w"
  by (simp add: commit_def call_def Fatalf_def return_def split: prod.splits option.splits)

lemma heap_rollback_Fatalf: "heap (snd (bind (rollback dbMan) (\<lambda>_. Fatalf msg) w)) = heap w"
  by (simp add: bind_def rollback_def call_def Fatalf_def return_def
      split: prod.splits option.splits sum.splits)

lemma heap_checkIfExisting: "heap (snd (checkIfExisting dbMan t a w)) = heap w"
  by (simp add: checkIfExisting_def Let_def heap_call split: option.splits)

lemma heap_ResolveTestRecord:
  "heap (snd (ResolveTestRecord dbMan t sid opts w)) = heap (snd (relationValues dbMan t opts w))"
proof (cases "relationValues dbMan t opts w")
  case (Pair r w0)
  show ?thesis
  proof (cases r)
    case (Inl msg)
    with Pair show ?thesis by (simp add: ResolveTestRecord_def bind_def)
  next
    case (Inr vals)
    obtain be w1 where b: "call Begin (db_Begin (driver dbMan)) w0 = (be, w1)" by force
    have h1: "heap w1 = heap w0"
      using heap_call [of Begin "db_Begin (driver dbMan)" w0] b by simp
    obtain ce w2 where c: "checkIfExisting dbMan t vals w1 = (ce, w2)" by force
    have h2: "heap w2 = heap w1" using heap_checkIfExisting [of dbMan t vals w1] c by simp
    show ?thesis
    proof (cases be)
      case (Some e)
      with Pair Inr b h1 show ?thesis by (simp add: ResolveTestRecord_def bind_def Fatalf_def)
    next
      case None
      let ?ins = "InsertStmt ((insertBuilder t)\<lparr>ins_SetMap := Some (deref (heap w2) vals)\<rparr>)"
      obtain qe w3 where q: "call (TxQuery ?ins) (tx_Query (driver dbMan) ?ins) w2 = (qe, w3)"
        by force
      have h3: "heap w3 = heap w2"
        using heap_call [of "TxQuery ?ins" "tx_Query (driver dbMan) ?ins" w2] q by simp
      from Pair Inr b None c q h1 h2 h3 show ?thesis
        by (simp add: ResolveTestRecord_def bind_def [of "relationValues dbMan t opts"] Let_def
            heap_rollback_Fatalf heap_commit split: option.splits)
    qed
  qed
qed

lemma heap_Create:
  "heap (snd (Create dbMan t opts w)) = heap (snd (relationValues dbMan t opts w))"
  by (simp add: Create_def bind_def builder_Query_def call_def Fatalf_def return_def
      split: prod.splits option.splits sum.splits)

lemma fold_writes_argument_only:
  assumes "\<forall>opt \<in> set opts. writes_argument_only opt" and "n < length h"
  shows "length (fold (\<lambda>opt h'. opt n h') opts h) = length h \<and>
         (\<forall>b. b < length h \<and> b \<noteq> n \<longrightarrow> fold (\<lambda>opt h'. opt n h') opts h ! b = h ! b)"
  using assms
proof (induction opts arbitrary: h)
  case Nil
  then show ?case by simp
next
  case (Cons opt opts)
  from Cons.prems have o: "writes_argument_only opt" by simp
  from o Cons.prems(2) have len: "length (opt n h) = length h"
    and same: "\<And>b. b < length h \<Longrightarrow> b \<noteq> n \<Longrightarrow> opt n h ! b = h ! b"
    by (auto simp: writes_argument_only_def)
  from Cons.prems have rest: "\<forall>opt \<in> set opts. writes_argument_only opt" by simp
  from Cons.prems(2) len have n: "n < length (opt n h)" by simp
  from Cons.IH [OF rest n] len same show ?case by simp
qed

lemma writes_argument_only_SetFieldValue: "writes_argument_only (SetFieldValue f v)"
  by (simp add: writes_argument_only_def SetFieldValue_def store_def)

lemma relationValues_prefix:
  assumes "\<forall>opt \<in> set opts. writes_argument_only opt"
  shows "take (length (heap w)) (heap (snd (relationValues dbMan t opts w))) = heap w"
proof (cases "defaultRelationValues dbMan t")
  case None
  then show ?thesis by (simp add: relationValues_unknown)
next
  case (Some a)
  define h0 where "h0 = (heap w @ [DAList.empty])[length (heap w) :=
          fold (\<lambda>(k, v). DAList.update k v)
            (DAList.impl_of (deref (heap w @ [DAList.empty]) a)) DAList.empty]"
  have g: "getDefaultRelationValues dbMan t w = (Inr (length (heap w)), w\<lparr>heap := h0\<rparr>)"
    using Some by (simp add: getDefaultRelationValues_def make_map_def fold_store h0_def)
  have n: "length (heap w) < length h0" by (simp add: h0_def)
  have old: "h0 ! b = heap w ! b" if "b < length (heap w)" for b
    using that by (simp add: h0_def nth_append)
  let ?h = "fold (\<lambda>opt h'. opt (length (heap w)) h') opts h0"
  from fold_writes_argument_only [OF assms n]
  have len: "length ?h = length h0"
    and same: "\<And>b. b < length h0 \<Longrightarrow> b \<noteq> length (heap w) \<Longrightarrow> ?h ! b = h0 ! b"
    by auto
  have "take (length (heap w)) ?h = heap w"
  proof (rule nth_equalityI)
    show "length (take (length (heap w)) ?h) = length (heap w)"
      using len n by simp
  next
    fix b assume "b < length (take (length (heap w)) ?h)"
    then have b: "b < length (heap w)" by simp
    with n have "?h ! b = h0 ! b" by (intro same) auto
    with b old show "take (length (heap w)) ?h ! b = heap w ! b" by simp
  qed
  then show ?thesis
    by (simp add: relationValues_def bind_def g)
qed

lemma old_maps_unchanged:
  assumes "take (length h) h' = h" and "a < length h"
  shows "deref h' a = deref h a"
proof -
  have "take (length h) h' ! a = h' ! a" using assms(2) by simp
  with assms(1) show ?thesis by (simp add: deref_def)
qed

text \<open>
  C7, amended. After \<^verbatim>\<open>ResolveTestRecord\<close> or \<^verbatim>\<open>Create\<close>, with any relation name
  and any options that write to the map they are given and to no other, every map that
  was allocated before the call holds what it held, and so does the map stored for each
  relation: \<^verbatim>\<open>getDefaultRelationValues\<close> copies the entries into a map of its own and
  the options are called with that map. The options built by \<^verbatim>\<open>SetFieldValue\<close> are of
  this kind.
\<close>

theorem defaults_kept_by_argument_writers:
  assumes "defaultRelationValues dbMan r = Some a" and "a < length (heap w)"
    and "\<forall>opt \<in> set opts. writes_argument_only opt"
  shows "take (length (heap w))
           (heap (snd (ResolveTestRecord dbMan tableName stringID opts w))) = heap w \<and>
         take (length (heap w)) (heap (snd (Create dbMan tableName opts w))) = heap w \<and>
         deref (heap (snd (ResolveTestRecord dbMan tableName stringID opts w))) a =
           deref (heap w) a \<and>
         deref (heap (snd (Create dbMan tableName opts w))) a = deref (heap w) a \<and>
         writes_argument_only (SetFieldValue f v)"
  using assms(2)
  by (simp add: heap_ResolveTestRecord heap_Create relationValues_prefix [OF assms(3)]
      old_maps_unchanged writes_argument_only_SetFieldValue)

theorem defaults_kept_by_argument_writers_witness:
  "defaultRelationValues (ex_dbMan no_rows None None) ''users'' = Some 0 \<and>
   0 < length (heap ex_world) \<and>
   writes_argument_only (SetFieldValue ''id'' (StrV ''u2'')) \<and>
   deref (heap (snd (ResolveTestRecord (ex_dbMan no_rows None None) ''users'' ''id''
                       [SetFieldValue ''id'' (StrV ''u2'')] ex_world))) 0 = users_defaults \<and>
   deref (heap (snd (Create (ex_dbMan no_rows None None) ''users''
                       [SetFieldValue ''id'' (StrV ''u2'')] ex_world))) 0 = users_defaults"
proof -
  have h1: "defaultRelationValues (ex_dbMan no_rows None None) ''users'' = Some 0"
    by (simp add: ex_dbMan_simps)
  have h2: "0 < length (heap ex_world)"
    by (simp add: ex_world_simps)
  have h3: "\<forall>opt \<in> set [SetFieldValue ''id'' (StrV ''u2'')]. writes_argument_only opt"
    by (simp add: writes_argument_only_SetFieldValue)
  from defaults_kept_by_argument_writers [OF h1 h2 h3] h1 h2 show ?thesis
    by (simp add: ex_world_simps deref_def)
qed

text \<open>
  The copy is one level deep and an option is any closure. An option that writes through
  a value of the copy that is a reference changes the map that the stored defaults
  refer to, and an option that holds the stored map changes the stored map itself.
\<close>

lemma shared_simps:
  "defaultRelationValues shared_dbMan ''users'' = Some 0"
  "heap shared_world = [account_defaults, settings_map]"
  by (simp_all add: shared_dbMan_def shared_world_def)

theorem defaults_mutated_counterexample:
  "defaultRelationValues shared_dbMan ''users'' = Some 0 \<and>
   DAList.lookup (deref (heap shared_world) 0) ''settings'' = Some (MapV 1) \<and>
   DAList.lookup (deref (heap shared_world) 1) ''lang'' = Some (StrV ''en'') \<and>
   DAList.lookup
     (deref (heap (snd (Create shared_dbMan ''users'' [set_lang] shared_world))) 1)
     ''lang'' = Some (StrV ''fr'') \<and>
   DAList.lookup
     (deref (heap (snd (ResolveTestRecord shared_dbMan ''users'' ''id'' [set_lang]
                         shared_world))) 1)
     ''lang'' = Some (StrV ''fr'') \<and>
   DAList.lookup (deref (heap shared_world) 0) ''id'' = Some (StrV ''u1'') \<and>
   DAList.lookup
     (deref (heap (snd (Create shared_dbMan ''users'' [set_stored_id] shared_world))) 0)
     ''id'' = Some (StrV ''u9'')"
proof -
  have v: "0 < length (heap shared_world)"
    by (simp add: shared_simps)
  note rv = relationValues_known [OF shared_simps(1) v]
  have a: "heap (snd (relationValues shared_dbMan ''users'' [set_lang] shared_world)) =
        [account_defaults, DAList.update ''lang'' (StrV ''fr'') settings_map, account_defaults]"
    by (simp add: rv shared_simps deref_def set_lang_def store_def account_defaults_def
        DAList.lookup_update)
  have b: "heap (snd (relationValues shared_dbMan ''users'' [set_stored_id] shared_world)) =
        [DAList.update ''id'' (StrV ''u9'') account_defaults, settings_map, account_defaults]"
    by (simp add: rv shared_simps deref_def set_stored_id_def store_def)
  show ?thesis
    by (simp add: heap_Create heap_ResolveTestRecord a b shared_simps deref_def
        account_defaults_def settings_map_def DAList.lookup_update)
qed

section \<open>Unknown relations\<close>

text \<open>
  C3. When the relation name is not a key of the table of defaults, every call, of the
  variant with a transaction or of the one without, with any options, ends in
  \<^verbatim>\<open>Fatalf\<close> with the message about the missing defaults and leaves the world as it
  was: the trace is the same, so the database was not reached and no transaction was
  begun.
\<close>

theorem unknown_relation_fails_before_database:
  assumes "defaultRelationValues dbMan relationName = None"
  shows "ResolveTestRecord dbMan relationName stringID opts w =
           (Inl (''no default values for relation '' @ quoted relationName), w) \<and>
         Create dbMan relationName opts w =
           (Inl (''no default values for relation '' @ quoted relationName), w)"
  using assms by (simp add: ResolveTestRecord_def Create_def bind_def relationValues_unknown)

theorem unknown_relation_fails_before_database_witness:
  "defaultRelationValues (ex_dbMan found None None) ''orders'' = None \<and>
   ResolveTestRecord (ex_dbMan found None None) ''orders'' ''id'' [] ex_world =
     (Inl (''no default values for relation '' @ quoted ''orders''), ex_world) \<and>
   Create (ex_dbMan found None None) ''orders'' [] ex_world =
     (Inl (''no default values for relation '' @ quoted ''orders''), ex_world)"
proof -
  have h: "defaultRelationValues (ex_dbMan found None None) ''orders'' = None"
    by (simp add: ex_dbMan_simps)
  from unknown_relation_fails_before_database [OF h] h show ?thesis
    by simp
qed

section \<open>The second parameter\<close>

text \<open>
  C9. The parameter \<^verbatim>\<open>stringID\<close> of the variant with a transaction is not used: two
  calls that differ in it alone return the same result and leave the same world, hence
  the same resolved values and the same calls to the database.
\<close>

theorem stringID_has_no_effect:
  "ResolveTestRecord dbMan tableName stringID opts w =
   ResolveTestRecord dbMan tableName stringID' opts w"
  by (simp add: ResolveTestRecord_def)

section \<open>The existence check\<close>

lemma fold_parse_append:
  "distinct (map fst (ys @ xs)) \<Longrightarrow>
   fold (\<lambda>(k, v) m. if \<not> is_Sqlizer v then AList.update k v m else m) xs ys =
   ys @ filter (\<lambda>(k, v). \<not> is_Sqlizer v) xs"
proof (induction xs arbitrary: ys)
  case Nil
  then show ?case by simp
next
  case (Cons x xs)
  obtain k v where x: "x = (k, v)" by (cases x)
  from Cons.prems have notin: "k \<notin> fst ` set ys" by (auto simp: x)
  then have upd: "AList.update k v ys = ys @ [(k, v)]"
    by (induction ys) auto
  show ?case
  proof (cases "is_Sqlizer v")
    case True
    from Cons.prems have "distinct (map fst (ys @ xs))" by (simp add: x)
    from Cons.IH [OF this] True show ?thesis by (simp add: x)
  next
    case False
    from Cons.prems have "distinct (map fst ((ys @ [(k, v)]) @ xs))" by (simp add: x)
    from Cons.IH [OF this] False show ?thesis by (simp add: x upd)
  qed
qed

lemma impl_of_fold_parse:
  "DAList.impl_of (fold (\<lambda>(k, v) m. if \<not> is_Sqlizer v then DAList.update k v m else m) xs m0) =
   fold (\<lambda>(k, v) m. if \<not> is_Sqlizer v then AList.update k v m else m) xs (DAList.impl_of m0)"
  by (induction xs arbitrary: m0) (auto simp: DAList.update.rep_eq)

lemma impl_of_parseSelectValues:
  "DAList.impl_of (parseSelectValues d) = filter (\<lambda>(k, v). \<not> is_Sqlizer v) (DAList.impl_of d)"
  by (simp add: parseSelectValues_def impl_of_fold_parse DAList.empty.rep_eq fold_parse_append)

lemma map_of_filter_values:
  "distinct (map fst xs) \<Longrightarrow>
   map_of (filter (\<lambda>(k, v). \<not> is_Sqlizer v) xs) k =
     (case map_of xs k of None \<Rightarrow> None | Some v \<Rightarrow> if is_Sqlizer v then None else Some v)"
proof (induction xs)
  case Nil
  then show ?case by simp
next
  case (Cons x xs)
  obtain k' v' where x: "x = (k', v')" by (cases x)
  from Cons.prems have "k' \<notin> fst ` set xs" by (simp add: x)
  then have "map_of xs k' = None" by (simp add: map_of_eq_None_iff)
  with Cons show ?case by (auto simp: x split: option.splits)
qed

lemma lookup_parseSelectValues:
  "DAList.lookup (parseSelectValues d) k =
     (case DAList.lookup d k of None \<Rightarrow> None | Some v \<Rightarrow> if is_Sqlizer v then None else Some v)"
  by (simp add: DAList.lookup.rep_eq impl_of_parseSelectValues map_of_filter_values)

text \<open>
  C2. The existence check builds a select of no column from the relation, with one
  \<^verbatim>\<open>Where\<close> part and the limit 1. The part is the equality map of
  \<^verbatim>\<open>parseSelectValues\<close>: it holds a key of the resolved values with its value when
  the value does not implement \<^verbatim>\<open>sq.Sqlizer\<close>, and it holds no key whose value does.
  That statement is the one sent to the database.
\<close>

theorem checkIfExisting_query:
  "checkIfExisting_builder tableName vs =
     \<lparr>sel_Columns = [''''], sel_From = tableName, sel_Where = [parseSelectValues vs],
      sel_Limit = Some 1\<rparr> \<and>
   DAList.lookup (parseSelectValues vs) k =
     (case DAList.lookup vs k of
        None \<Rightarrow> None
      | Some v \<Rightarrow> if is_Sqlizer v then None else Some v) \<and>
   trace (snd (checkIfExisting dbMan tableName a w)) =
     trace w @
     (case ToSql (driver dbMan) (SelectStmt (checkIfExisting_builder tableName (deref (heap w) a))) of
        None \<Rightarrow> [QueryRow (SelectStmt (checkIfExisting_builder tableName (deref (heap w) a)))]
      | Some e \<Rightarrow> [])"
  by (simp add: checkIfExisting_builder_def selectBuilder_def lookup_parseSelectValues
      checkIfExisting_def call_def Let_def split: option.splits prod.splits)

theorem checkIfExisting_query_witness:
  "DAList.lookup (parseSelectValues users_defaults) ''created_at'' = None \<and>
   DAList.lookup (parseSelectValues users_defaults) ''id'' = Some (StrV ''u1'')"
  using checkIfExisting_query [of "''users''" users_defaults "''created_at''"
      "ex_dbMan found None None" 0 ex_world]
    checkIfExisting_query [of "''users''" users_defaults "''id''"
      "ex_dbMan found None None" 0 ex_world]
  by (simp add: users_defaults_def)

section \<open>The variant with a transaction: the two paths that commit\<close>

lemma ResolveTestRecord_known:
  assumes "defaultRelationValues dbMan tableName = Some a" and "a < length (heap w)"
    and "h1 = fold (\<lambda>opt h. opt (length (heap w)) h) opts (heap w @ [deref (heap w) a])"
    and "resolved = deref h1 (length (heap w))"
    and "sel = SelectStmt (checkIfExisting_builder tableName resolved)"
    and "ins = InsertStmt \<lparr>ins_Into = tableName, ins_SetMap = Some resolved, ins_Suffix = []\<rparr>"
    and "db_Begin (driver dbMan) (db w) = (None, s1)"
    and "ToSql (driver dbMan) sel = None"
    and "tx_QueryRow_Scan (driver dbMan) sel s1 = (ce, s2)"
    and "w2 = w\<lparr>heap := h1, db := s2, trace := trace w @ [Begin, QueryRow sel]\<rparr>"
  shows "ResolveTestRecord dbMan tableName stringID opts w =
     (if ce = Some ErrNoRows then
        (case ToSql (driver dbMan) ins of
           Some e1 \<Rightarrow>
             bind (rollback dbMan) (\<lambda>_.
               Fatalf (''Test setup failed: could not generate sql string for ''
                       @ quoted tableName @ '': '' @ Error e1)) w2
         | None \<Rightarrow>
             (case call (TxQuery ins) (tx_Query (driver dbMan) ins) w2 of
                (Some e2, w3) \<Rightarrow>
                  bind (rollback dbMan) (\<lambda>_.
                    Fatalf (''Test setup failed: could not create test record for ''
                            @ quoted tableName @ '': '' @ Error e2)) w3
              | (None, w3) \<Rightarrow> commit dbMan w3))
      else if ce \<noteq> None then
        bind (rollback dbMan) (\<lambda>_.
          Fatalf (''failed during checkIfExisting '' @ Error (the ce))) w2
      else commit dbMan w2)"
  using assms
  by (simp add: ResolveTestRecord_def bind_def [of "relationValues dbMan tableName opts"]
      relationValues_known call_def checkIfExisting_def Let_def deref_def insertBuilder_def
      cong: option.case_cong)

lemma world_all_updated:
  "w\<lparr>heap := h, db := s, trace := t\<rparr> = \<lparr>heap = h, db = s, trace = t\<rparr>"
  by (cases w) simp

lemma rollback_Fatalf:
  "bind (rollback dbMan) (\<lambda>_. Fatalf msg) w =
     (Inl (case fst (tx_Rollback (driver dbMan) (db w)) of
             None \<Rightarrow> msg
           | Some e \<Rightarrow> ''Test setup failed: failed to rollback: '' @ Error e),
      w\<lparr>db := snd (tx_Rollback (driver dbMan) (db w)), trace := trace w @ [Rollback]\<rparr>)"
  by (simp add: bind_def rollback_def call_def Fatalf_def return_def
      split: prod.splits option.splits)

lemma commit_result:
  "commit dbMan w =
     (case fst (tx_Commit (driver dbMan) (db w)) of
        None \<Rightarrow> Inr ()
      | Some e \<Rightarrow> Inl (''Test setup failed: could not commit transaction: '' @ Error e),
      w\<lparr>db := snd (tx_Commit (driver dbMan) (db w)), trace := trace w @ [Commit]\<rparr>)"
  by (simp add: commit_def call_def Fatalf_def return_def split: prod.splits option.splits)

text \<open>
  C1. The variant with a transaction, for a known relation, once the transaction has
  begun and the check has been sent. When the check reports no row and the insert is
  built and executed without error, the calls to the database are the begin, the
  check, the insert of the whole resolved map (expression values included) into the
  relation, and the commit. When the check reports a row, there is no insert: the calls
  are the begin, the check and the commit. In both cases the call ends normally unless
  the commit fails.
\<close>

theorem ResolveTestRecord_creates_or_finds:
  assumes "defaultRelationValues dbMan tableName = Some a" and "a < length (heap w)"
    and "h1 = fold (\<lambda>opt h. opt (length (heap w)) h) opts (heap w @ [deref (heap w) a])"
    and "resolved = deref h1 (length (heap w))"
    and "sel = SelectStmt (checkIfExisting_builder tableName resolved)"
    and "ins = InsertStmt \<lparr>ins_Into = tableName, ins_SetMap = Some resolved, ins_Suffix = []\<rparr>"
    and "db_Begin (driver dbMan) (db w) = (None, s1)"
    and "ToSql (driver dbMan) sel = None"
  shows "(tx_QueryRow_Scan (driver dbMan) sel s1 = (Some ErrNoRows, s2) \<and>
          ToSql (driver dbMan) ins = None \<and>
          tx_Query (driver dbMan) ins s2 = (None, s3) \<longrightarrow>
            ResolveTestRecord dbMan tableName stringID opts w =
              (case fst (tx_Commit (driver dbMan) s3) of
                 None \<Rightarrow> Inr ()
               | Some e \<Rightarrow> Inl (''Test setup failed: could not commit transaction: '' @ Error e),
               \<lparr>heap = h1, db = snd (tx_Commit (driver dbMan) s3),
                trace = trace w @ [Begin, QueryRow sel, TxQuery ins, Commit]\<rparr>)) \<and>
         (tx_QueryRow_Scan (driver dbMan) sel s1 = (None, s2) \<longrightarrow>
            ResolveTestRecord dbMan tableName stringID opts w =
              (case fst (tx_Commit (driver dbMan) s2) of
                 None \<Rightarrow> Inr ()
               | Some e \<Rightarrow> Inl (''Test setup failed: could not commit transaction: '' @ Error e),
               \<lparr>heap = h1, db = snd (tx_Commit (driver dbMan) s2),
                trace = trace w @ [Begin, QueryRow sel, Commit]\<rparr>))"
proof (intro conjI impI)
  assume h: "tx_QueryRow_Scan (driver dbMan) sel s1 = (Some ErrNoRows, s2) \<and>
          ToSql (driver dbMan) ins = None \<and>
          tx_Query (driver dbMan) ins s2 = (None, s3)"
  from h have ck: "tx_QueryRow_Scan (driver dbMan) sel s1 = (Some ErrNoRows, s2)" by simp
  from ResolveTestRecord_known [OF assms ck refl, of stringID] h
  show "ResolveTestRecord dbMan tableName stringID opts w =
              (case fst (tx_Commit (driver dbMan) s3) of
                 None \<Rightarrow> Inr ()
               | Some e \<Rightarrow> Inl (''Test setup failed: could not commit transaction: '' @ Error e),
               \<lparr>heap = h1, db = snd (tx_Commit (driver dbMan) s3),
                trace = trace w @ [Begin, QueryRow sel, TxQuery ins, Commit]\<rparr>)"
    by (simp add: call_def commit_result world_all_updated)
next
  assume ck: "tx_QueryRow_Scan (driver dbMan) sel s1 = (None, s2)"
  from ResolveTestRecord_known [OF assms ck refl, of stringID]
  show "ResolveTestRecord dbMan tableName stringID opts w =
              (case fst (tx_Commit (driver dbMan) s2) of
                 None \<Rightarrow> Inr ()
               | Some e \<Rightarrow> Inl (''Test setup failed: could not commit transaction: '' @ Error e),
               \<lparr>heap = h1, db = snd (tx_Commit (driver dbMan) s2),
                trace = trace w @ [Begin, QueryRow sel, Commit]\<rparr>)"
    by (simp add: commit_result world_all_updated)
qed


theorem ResolveTestRecord_creates_or_finds_witness:
  "defaultRelationValues (ex_dbMan no_rows None None) ''users'' = Some 0 \<and>
   defaultRelationValues (ex_dbMan found None None) ''users'' = Some 0 \<and>
   0 < length (heap ex_world) \<and>
   ResolveTestRecord (ex_dbMan no_rows None None) ''users'' ''id'' [] ex_world =
     (Inr (),
      \<lparr>heap = [users_defaults, stamps_defaults, users_defaults], db = (),
       trace = [Begin,
                QueryRow (SelectStmt (checkIfExisting_builder ''users'' users_defaults)),
                TxQuery (InsertStmt \<lparr>ins_Into = ''users'', ins_SetMap = Some users_defaults,
                                     ins_Suffix = []\<rparr>),
                Commit]\<rparr>) \<and>
   ResolveTestRecord (ex_dbMan found None None) ''users'' ''id'' [] ex_world =
     (Inr (),
      \<lparr>heap = [users_defaults, stamps_defaults, users_defaults], db = (),
       trace = [Begin,
                QueryRow (SelectStmt (checkIfExisting_builder ''users'' users_defaults)),
                Commit]\<rparr>)"
proof -
  have h1: "defaultRelationValues (ex_dbMan chk None None) ''users'' = Some 0" for chk
    by (simp add: ex_dbMan_simps)
  have h2: "0 < length (heap ex_world)"
    by (simp add: ex_world_simps)
  have h3: "db_Begin (driver (ex_dbMan chk None None)) (db ex_world) = (None, ())" for chk
    by (simp add: ex_dbMan_simps)
  have h4: "ToSql (driver (ex_dbMan chk None None)) q = None" for chk q
    by (simp add: ex_dbMan_simps)
  note created = ResolveTestRecord_creates_or_finds
    [OF h1 h2 refl refl refl refl h3 h4, of no_rows "[]" "()" "()" "''id''"]
  note was_there = ResolveTestRecord_creates_or_finds
    [OF h1 h2 refl refl refl refl h3 h4, of found "[]" "()" "()" "''id''"]
  from created was_there h1 h2 show ?thesis
    by (simp add: ex_dbMan_simps ex_world_simps no_rows_def found_def deref_def)
qed

section \<open>The variant with a transaction: the paths that roll back\<close>

lemma ResolveTestRecord_checked:
  assumes "defaultRelationValues dbMan tableName = Some a" and "a < length (heap w)"
    and "h1 = fold (\<lambda>opt h. opt (length (heap w)) h) opts (heap w @ [deref (heap w) a])"
    and "resolved = deref h1 (length (heap w))"
    and "ins = InsertStmt \<lparr>ins_Into = tableName, ins_SetMap = Some resolved, ins_Suffix = []\<rparr>"
    and "db_Begin (driver dbMan) (db w) = (None, s1)"
    and "w1 = w\<lparr>heap := h1, db := s1, trace := trace w @ [Begin]\<rparr>"
    and "checkIfExisting dbMan tableName (length (heap w)) w1 = (ce, w2)"
  shows "ResolveTestRecord dbMan tableName stringID opts w =
     (if ce = Some ErrNoRows then
        (case ToSql (driver dbMan) ins of
           Some e1 \<Rightarrow>
             bind (rollback dbMan) (\<lambda>_.
               Fatalf (''Test setup failed: could not generate sql string for ''
                       @ quoted tableName @ '': '' @ Error e1)) w2
         | None \<Rightarrow>
             (case call (TxQuery ins) (tx_Query (driver dbMan) ins) w2 of
                (Some e2, w3) \<Rightarrow>
                  bind (rollback dbMan) (\<lambda>_.
                    Fatalf (''Test setup failed: could not create test record for ''
                            @ quoted tableName @ '': '' @ Error e2)) w3
              | (None, w3) \<Rightarrow> commit dbMan w3))
      else if ce \<noteq> None then
        bind (rollback dbMan) (\<lambda>_.
          Fatalf (''failed during checkIfExisting '' @ Error (the ce))) w2
      else commit dbMan w2)"
proof -
  have hp: "heap w2 = h1"
    using heap_checkIfExisting [of dbMan tableName "length (heap w)" w1] assms(7,8) by simp
  have d: "deref (heap w2) (length (heap w)) = resolved"
    by (simp add: hp assms(4))
  from assms(1,2,3,6,7,8) show ?thesis unfolding assms(5)
    by (simp add: ResolveTestRecord_def bind_def [of "relationValues dbMan tableName opts"]
        relationValues_known call_def [of Begin] insertBuilder_def d Let_def
        cong: option.case_cong)
qed

text \<open>
  C4, amended. In the variant with a transaction, a failure of the existence check other
  than \<^verbatim>\<open>sql.ErrNoRows\<close>, a failure to build the insert and a failure to execute it
  are each followed by the rollback and then by \<^verbatim>\<open>Fatalf\<close>. After a failed insert
  the message names the relation and carries the error; after a failed check the message
  carries the error only. When the rollback itself fails, the call ends in the
  \<^verbatim>\<open>Fatalf\<close> of \<^verbatim>\<open>rollback\<close>, whose message carries the error of the rollback.
\<close>

theorem failures_roll_back_then_fail:
  assumes "defaultRelationValues dbMan tableName = Some a" and "a < length (heap w)"
    and "h1 = fold (\<lambda>opt h. opt (length (heap w)) h) opts (heap w @ [deref (heap w) a])"
    and "resolved = deref h1 (length (heap w))"
    and "ins = InsertStmt \<lparr>ins_Into = tableName, ins_SetMap = Some resolved, ins_Suffix = []\<rparr>"
    and "db_Begin (driver dbMan) (db w) = (None, s1)"
    and "w1 = w\<lparr>heap := h1, db := s1, trace := trace w @ [Begin]\<rparr>"
    and "checkIfExisting dbMan tableName (length (heap w)) w1 = (ce, w2)"
  shows "(ce = Some ec \<and> ec \<noteq> ErrNoRows \<longrightarrow>
            ResolveTestRecord dbMan tableName stringID opts w =
              (Inl (case fst (tx_Rollback (driver dbMan) (db w2)) of
                      None \<Rightarrow> ''failed during checkIfExisting '' @ Error ec
                    | Some re \<Rightarrow> ''Test setup failed: failed to rollback: '' @ Error re),
               w2\<lparr>db := snd (tx_Rollback (driver dbMan) (db w2)),
                   trace := trace w2 @ [Rollback]\<rparr>)) \<and>
         (ce = Some ErrNoRows \<and> ToSql (driver dbMan) ins = Some eb \<longrightarrow>
            ResolveTestRecord dbMan tableName stringID opts w =
              (Inl (case fst (tx_Rollback (driver dbMan) (db w2)) of
                      None \<Rightarrow> ''Test setup failed: could not generate sql string for ''
                              @ quoted tableName @ '': '' @ Error eb
                    | Some re \<Rightarrow> ''Test setup failed: failed to rollback: '' @ Error re),
               w2\<lparr>db := snd (tx_Rollback (driver dbMan) (db w2)),
                   trace := trace w2 @ [Rollback]\<rparr>)) \<and>
         (ce = Some ErrNoRows \<and> ToSql (driver dbMan) ins = None \<and>
          tx_Query (driver dbMan) ins (db w2) = (Some ei, si) \<longrightarrow>
            ResolveTestRecord dbMan tableName stringID opts w =
              (Inl (case fst (tx_Rollback (driver dbMan) si) of
                      None \<Rightarrow> ''Test setup failed: could not create test record for ''
                              @ quoted tableName @ '': '' @ Error ei
                    | Some re \<Rightarrow> ''Test setup failed: failed to rollback: '' @ Error re),
               w2\<lparr>db := snd (tx_Rollback (driver dbMan) si),
                   trace := trace w2 @ [TxQuery ins, Rollback]\<rparr>))"
proof -
  note body = ResolveTestRecord_checked [OF assms, of stringID]
  have check_failed: "ResolveTestRecord dbMan tableName stringID opts w =
              (Inl (case fst (tx_Rollback (driver dbMan) (db w2)) of
                      None \<Rightarrow> ''failed during checkIfExisting '' @ Error ec
                    | Some re \<Rightarrow> ''Test setup failed: failed to rollback: '' @ Error re),
               w2\<lparr>db := snd (tx_Rollback (driver dbMan) (db w2)),
                   trace := trace w2 @ [Rollback]\<rparr>)"
    if "ce = Some ec" and "ec \<noteq> ErrNoRows"
    using body that by (simp add: rollback_Fatalf cong: option.case_cong)
  have build_failed: "ResolveTestRecord dbMan tableName stringID opts w =
              (Inl (case fst (tx_Rollback (driver dbMan) (db w2)) of
                      None \<Rightarrow> ''Test setup failed: could not generate sql string for ''
                              @ quoted tableName @ '': '' @ Error eb
                    | Some re \<Rightarrow> ''Test setup failed: failed to rollback: '' @ Error re),
               w2\<lparr>db := snd (tx_Rollback (driver dbMan) (db w2)),
                   trace := trace w2 @ [Rollback]\<rparr>)"
    if "ce = Some ErrNoRows" and "ToSql (driver dbMan) ins = Some eb"
    using body that by (simp add: rollback_Fatalf cong: option.case_cong)
  have insert_failed: "ResolveTestRecord dbMan tableName stringID opts w =
              (Inl (case fst (tx_Rollback (driver dbMan) si) of
                      None \<Rightarrow> ''Test setup failed: could not create test record for ''
                              @ quoted tableName @ '': '' @ Error ei
                    | Some re \<Rightarrow> ''Test setup failed: failed to rollback: '' @ Error re),
               w2\<lparr>db := snd (tx_Rollback (driver dbMan) si),
                   trace := trace w2 @ [TxQuery ins, Rollback]\<rparr>)"
    if "ce = Some ErrNoRows" and "ToSql (driver dbMan) ins = None"
      and "tx_Query (driver dbMan) ins (db w2) = (Some ei, si)"
    using body that by (simp add: call_def rollback_Fatalf cong: option.case_cong)
  show ?thesis
    apply (intro conjI impI)
      apply (elim conjE, erule (1) check_failed)
     apply (elim conjE, erule (1) build_failed)
    apply (elim conjE, erule (2) insert_failed)
    done
qed

lemma ex_checkIfExisting:
  "checkIfExisting (ex_dbMan chk ins rb) ''users'' (length (heap ex_world))
     (ex_world\<lparr>heap := heap ex_world @ [users_defaults], db := (),
               trace := trace ex_world @ [Begin]\<rparr>) =
   (chk (SelectStmt (checkIfExisting_builder ''users'' users_defaults)),
    \<lparr>heap = [users_defaults, stamps_defaults, users_defaults], db = (),
     trace = [Begin, QueryRow (SelectStmt (checkIfExisting_builder ''users'' users_defaults))]\<rparr>)"
  by (simp add: checkIfExisting_def ex_dbMan_simps call_def ex_world_def deref_def Let_def)

text \<open>
  The message after a failed check does not name the relation: with the check refused
  on the relation \<^verbatim>\<open>users\<close>, the message is the one below, and \<^verbatim>\<open>users\<close> does not
  occur in it.
\<close>

theorem check_failure_message_counterexample:
  "fst (ResolveTestRecord (ex_dbMan refused None None) ''users'' ''id'' [] ex_world) =
     Inl ''failed during checkIfExisting connection refused'' \<and>
   \<not> sublist ''users'' ''failed during checkIfExisting connection refused''"
proof -
  have h1: "defaultRelationValues (ex_dbMan refused None None) ''users'' = Some 0"
    by (simp add: ex_dbMan_simps)
  have h2: "0 < length (heap ex_world)"
    by (simp add: ex_world_simps)
  have h3: "db_Begin (driver (ex_dbMan refused None None)) (db ex_world) = (None, ())"
    by (simp add: ex_dbMan_simps)
  have h4: "deref (heap ex_world) 0 = users_defaults"
    by (simp add: ex_world_simps deref_def)
  have "ResolveTestRecord (ex_dbMan refused None None) ''users'' ''id'' [] ex_world =
        bind (rollback (ex_dbMan refused None None))
          (\<lambda>_. Fatalf (''failed during checkIfExisting '' @ ''connection refused''))
          \<lparr>heap = [users_defaults, stamps_defaults, users_defaults], db = (),
           trace = [Begin, QueryRow (SelectStmt (checkIfExisting_builder ''users'' users_defaults))]\<rparr>"
    using ResolveTestRecord_checked [OF h1 h2 refl refl refl h3 refl, of "[]" _ _ "''id''"]
    by (simp add: h4 ex_checkIfExisting refused_def)
  then show ?thesis
    by (simp add: rollback_Fatalf ex_dbMan_simps sublist_code)
qed


lemma no_insert_sql_simps:
  "defaultRelationValues no_insert_sql ''users'' = Some 0"
  "ToSql (driver no_insert_sql) (SelectStmt b) = None"
  "ToSql (driver no_insert_sql) (InsertStmt i) = Some (Err ''no table'')"
  "db_Begin (driver no_insert_sql) s = (None, s)"
  "tx_QueryRow_Scan (driver no_insert_sql) q s = (Some ErrNoRows, s)"
  "tx_Rollback (driver no_insert_sql) s = (None, s)"
  by (simp_all add: no_insert_sql_def ex_defaults_def scripted_def insert_unbuildable_def
      no_rows_def)

lemma no_insert_sql_checkIfExisting:
  "checkIfExisting no_insert_sql ''users'' (length (heap ex_world))
     (ex_world\<lparr>heap := heap ex_world @ [users_defaults], db := (),
               trace := trace ex_world @ [Begin]\<rparr>) =
   (Some ErrNoRows,
    \<lparr>heap = [users_defaults, stamps_defaults, users_defaults], db = (),
     trace = [Begin, QueryRow (SelectStmt (checkIfExisting_builder ''users'' users_defaults))]\<rparr>)"
  by (simp add: checkIfExisting_def no_insert_sql_simps call_def ex_world_def deref_def Let_def)

theorem failures_roll_back_then_fail_witness:
  "defaultRelationValues (ex_dbMan refused None None) ''users'' = Some 0 \<and>
   0 < length (heap ex_world) \<and>
   ResolveTestRecord (ex_dbMan refused None None) ''users'' ''id'' [] ex_world =
     (Inl ''failed during checkIfExisting connection refused'',
      \<lparr>heap = [users_defaults, stamps_defaults, users_defaults], db = (),
       trace = [Begin,
                QueryRow (SelectStmt (checkIfExisting_builder ''users'' users_defaults)),
                Rollback]\<rparr>) \<and>
   ResolveTestRecord (ex_dbMan refused None (Some (Err ''tx is done''))) ''users'' ''id'' []
       ex_world =
     (Inl ''Test setup failed: failed to rollback: tx is done'',
      \<lparr>heap = [users_defaults, stamps_defaults, users_defaults], db = (),
       trace = [Begin,
                QueryRow (SelectStmt (checkIfExisting_builder ''users'' users_defaults)),
                Rollback]\<rparr>) \<and>
   ResolveTestRecord no_insert_sql ''users'' ''id'' [] ex_world =
     (Inl (''Test setup failed: could not generate sql string for '' @ quoted ''users''
           @ '': no table''),
      \<lparr>heap = [users_defaults, stamps_defaults, users_defaults], db = (),
       trace = [Begin,
                QueryRow (SelectStmt (checkIfExisting_builder ''users'' users_defaults)),
                Rollback]\<rparr>) \<and>
   ResolveTestRecord (ex_dbMan no_rows (Some (Err ''duplicate key'')) None) ''users'' ''id'' []
       ex_world =
     (Inl (''Test setup failed: could not create test record for '' @ quoted ''users''
           @ '': duplicate key''),
      \<lparr>heap = [users_defaults, stamps_defaults, users_defaults], db = (),
       trace = [Begin,
                QueryRow (SelectStmt (checkIfExisting_builder ''users'' users_defaults)),
                TxQuery (InsertStmt \<lparr>ins_Into = ''users'', ins_SetMap = Some users_defaults,
                                     ins_Suffix = []\<rparr>),
                Rollback]\<rparr>)"
proof -
  have h1: "defaultRelationValues (ex_dbMan chk ins rb) ''users'' = Some 0" for chk ins rb
    by (simp add: ex_dbMan_simps)
  have h2: "0 < length (heap ex_world)"
    by (simp add: ex_world_simps)
  have h3: "db_Begin (driver (ex_dbMan chk ins rb)) (db ex_world) = (None, ())" for chk ins rb
    by (simp add: ex_dbMan_simps)
  have h4: "deref (heap ex_world) 0 = users_defaults"
    by (simp add: ex_world_simps deref_def)
  have ck: "checkIfExisting (ex_dbMan chk ins rb) ''users'' (length (heap ex_world))
      (ex_world\<lparr>heap := fold (\<lambda>opt h. opt (length (heap ex_world)) h) []
                          (heap ex_world @ [deref (heap ex_world) 0]),
                db := (), trace := trace ex_world @ [Begin]\<rparr>) =
      (chk (SelectStmt (checkIfExisting_builder ''users'' users_defaults)),
       \<lparr>heap = [users_defaults, stamps_defaults, users_defaults], db = (),
        trace = [Begin,
                 QueryRow (SelectStmt (checkIfExisting_builder ''users'' users_defaults))]\<rparr>)"
    for chk ins rb
    using ex_checkIfExisting [of chk ins rb] by (simp add: h4)
  have n3: "db_Begin (driver no_insert_sql) (db ex_world) = (None, ())"
    by (simp add: no_insert_sql_simps)
  have nck: "checkIfExisting no_insert_sql ''users'' (length (heap ex_world))
      (ex_world\<lparr>heap := fold (\<lambda>opt h. opt (length (heap ex_world)) h) []
                          (heap ex_world @ [deref (heap ex_world) 0]),
                db := (), trace := trace ex_world @ [Begin]\<rparr>) =
      (Some ErrNoRows,
       \<lparr>heap = [users_defaults, stamps_defaults, users_defaults], db = (),
        trace = [Begin,
                 QueryRow (SelectStmt (checkIfExisting_builder ''users'' users_defaults))]\<rparr>)"
    using no_insert_sql_checkIfExisting by (simp add: h4)
  note check_fails = failures_roll_back_then_fail
    [OF h1 h2 refl refl refl h3 refl ck [of refused None None],
      where ec = "Err ''connection refused''" and stringID = "''id''"
        and eb = "Err ''x''" and ei = "Err ''x''" and si = "()"]
  note rollback_fails = failures_roll_back_then_fail
    [OF h1 h2 refl refl refl h3 refl ck [of refused None "Some (Err ''tx is done'')"],
      where ec = "Err ''connection refused''" and stringID = "''id''"
        and eb = "Err ''x''" and ei = "Err ''x''" and si = "()"]
  note build_fails = failures_roll_back_then_fail
    [OF no_insert_sql_simps(1) h2 refl refl refl n3 refl nck,
      where eb = "Err ''no table''" and stringID = "''id''"
        and ec = "Err ''x''" and ei = "Err ''x''" and si = "()"]
  note insert_fails = failures_roll_back_then_fail
    [OF h1 h2 refl refl refl h3 refl ck [of no_rows "Some (Err ''duplicate key'')" None],
      where ei = "Err ''duplicate key''" and si = "()" and stringID = "''id''"
        and ec = "Err ''x''" and eb = "Err ''x''"]
  have a: "ResolveTestRecord (ex_dbMan refused None None) ''users'' ''id'' [] ex_world =
     (Inl ''failed during checkIfExisting connection refused'',
      \<lparr>heap = [users_defaults, stamps_defaults, users_defaults], db = (),
       trace = [Begin,
                QueryRow (SelectStmt (checkIfExisting_builder ''users'' users_defaults)),
                Rollback]\<rparr>)"
    using check_fails by (simp add: refused_def ex_dbMan_simps)
  have b: "ResolveTestRecord (ex_dbMan refused None (Some (Err ''tx is done''))) ''users'' ''id'' []
       ex_world =
     (Inl ''Test setup failed: failed to rollback: tx is done'',
      \<lparr>heap = [users_defaults, stamps_defaults, users_defaults], db = (),
       trace = [Begin,
                QueryRow (SelectStmt (checkIfExisting_builder ''users'' users_defaults)),
                Rollback]\<rparr>)"
    using rollback_fails by (simp add: refused_def ex_dbMan_simps)
  have c: "ResolveTestRecord no_insert_sql ''users'' ''id'' [] ex_world =
     (Inl (''Test setup failed: could not generate sql string for '' @ quoted ''users''
           @ '': no table''),
      \<lparr>heap = [users_defaults, stamps_defaults, users_defaults], db = (),
       trace = [Begin,
                QueryRow (SelectStmt (checkIfExisting_builder ''users'' users_defaults)),
                Rollback]\<rparr>)"
    using build_fails by (simp add: no_insert_sql_simps)
  have d: "ResolveTestRecord (ex_dbMan no_rows (Some (Err ''duplicate key'')) None) ''users''
       ''id'' [] ex_world =
     (Inl (''Test setup failed: could not create test record for '' @ quoted ''users''
           @ '': duplicate key''),
      \<lparr>heap = [users_defaults, stamps_defaults, users_defaults], db = (),
       trace = [Begin,
                QueryRow (SelectStmt (checkIfExisting_builder ''users'' users_defaults)),
                TxQuery (InsertStmt \<lparr>ins_Into = ''users'', ins_SetMap = Some users_defaults,
                                     ins_Suffix = []\<rparr>),
                Rollback]\<rparr>)"
    using insert_fails by (simp add: no_rows_def ex_dbMan_simps deref_def ex_world_simps)
  from h1 h2 a b c d show ?thesis by blast
qed

section \<open>The variant without a transaction\<close>

text \<open>
  C8, amended. For a known relation, \<^verbatim>\<open>Create\<close> begins no transaction and sends no
  existence check. It builds one insert of the resolved map with the suffix
  \<^verbatim>\<open>ON CONFLICT DO NOTHING\<close>. When the statement is built, its execution is the one
  call that reaches the database, the database is left in the state that call produced,
  and the call ends in \<^verbatim>\<open>Fatalf\<close>, with the relation name and the error in the message,
  exactly when the execution returns an error. When the statement is not built, nothing
  reaches the database and the call ends in \<^verbatim>\<open>Fatalf\<close> with the error of the builder.
\<close>

theorem Create_inserts_without_transaction:
  assumes "defaultRelationValues dbMan tableName = Some a" and "a < length (heap w)"
    and "h1 = fold (\<lambda>opt h. opt (length (heap w)) h) opts (heap w @ [deref (heap w) a])"
    and "resolved = deref h1 (length (heap w))"
    and "ins = InsertStmt \<lparr>ins_Into = tableName, ins_SetMap = Some resolved,
                           ins_Suffix = [''ON CONFLICT DO NOTHING'']\<rparr>"
  shows "Create dbMan tableName opts w =
           (case ToSql (driver dbMan) ins of
              Some eb \<Rightarrow>
                (Inl (''Test setup failed: could not create test record for ''
                      @ quoted tableName @ '': '' @ Error eb),
                 \<lparr>heap = h1, db = db w, trace = trace w\<rparr>)
            | None \<Rightarrow>
                (case fst (db_Query (driver dbMan) ins (db w)) of
                   None \<Rightarrow> Inr ()
                 | Some ei \<Rightarrow>
                     Inl (''Test setup failed: could not create test record for ''
                          @ quoted tableName @ '': '' @ Error ei),
                 \<lparr>heap = h1, db = snd (db_Query (driver dbMan) ins (db w)),
                  trace = trace w @ [DbQuery ins]\<rparr>))"
proof -
  have c: "Create dbMan tableName opts w =
      (case builder_Query dbMan ins (w\<lparr>heap := h1\<rparr>) of
         (Some e, w') \<Rightarrow>
           Fatalf (''Test setup failed: could not create test record for ''
                   @ quoted tableName @ '': '' @ Error e) w'
       | (None, w') \<Rightarrow> return () w')"
    using assms(1,2) unfolding assms(3,4,5)
    by (simp add: Create_def bind_def relationValues_known insertBuilder_def)
  have u: "w\<lparr>heap := h1\<rparr> = \<lparr>heap = h1, db = db w, trace = trace w\<rparr>"
    by (cases w) simp
  show ?thesis
  proof (cases "ToSql (driver dbMan) ins")
    case (Some eb)
    with c show ?thesis
      by (simp add: builder_Query_def Fatalf_def u)
  next
    case None
    obtain r s where q: "db_Query (driver dbMan) ins (db w) = (r, s)" by force
    with c None show ?thesis
      by (cases r)
        (simp_all add: builder_Query_def call_def Fatalf_def return_def world_all_updated)
  qed
qed

lemma counting_simps:
  "defaultRelationValues counting_dbMan ''users'' = Some 0"
  "heap counting_world = [users_defaults, stamps_defaults]"
  "db counting_world = 0"
  "trace counting_world = []"
  "ToSql (driver counting_dbMan) q = None"
  "db_Query (driver counting_dbMan) q s = (None, Suc s)"
  by (simp_all add: counting_dbMan_def counting_world_def counting_def ex_defaults_def)

theorem Create_inserts_without_transaction_witness:
  "defaultRelationValues counting_dbMan ''users'' = Some 0 \<and>
   0 < length (heap counting_world) \<and>
   db counting_world = 0 \<and>
   Create counting_dbMan ''users'' [] counting_world =
     (Inr (),
      \<lparr>heap = [users_defaults, stamps_defaults, users_defaults], db = 1,
       trace = [DbQuery (InsertStmt \<lparr>ins_Into = ''users'', ins_SetMap = Some users_defaults,
                                     ins_Suffix = [''ON CONFLICT DO NOTHING'']\<rparr>)]\<rparr>) \<and>
   Create (ex_dbMan found (Some (Err ''connection refused'')) None) ''users'' [] ex_world =
     (Inl (''Test setup failed: could not create test record for '' @ quoted ''users''
           @ '': connection refused''),
      \<lparr>heap = [users_defaults, stamps_defaults, users_defaults], db = (),
       trace = [DbQuery (InsertStmt \<lparr>ins_Into = ''users'', ins_SetMap = Some users_defaults,
                                     ins_Suffix = [''ON CONFLICT DO NOTHING'']\<rparr>)]\<rparr>)"
proof -
  have c1: "defaultRelationValues counting_dbMan ''users'' = Some 0"
    by (simp add: counting_simps)
  have c2: "0 < length (heap counting_world)"
    by (simp add: counting_simps)
  have h1: "defaultRelationValues (ex_dbMan chk ins rb) ''users'' = Some 0" for chk ins rb
    by (simp add: ex_dbMan_simps)
  have h2: "0 < length (heap ex_world)"
    by (simp add: ex_world_simps)
  note ok = Create_inserts_without_transaction [OF c1 c2 refl refl refl, of "[]"]
  note failed = Create_inserts_without_transaction
    [OF h1 h2 refl refl refl, of found "Some (Err ''connection refused'')" None "[]"]
  from ok failed c1 c2 show ?thesis
    by (simp add: counting_simps ex_dbMan_simps ex_world_simps deref_def)
qed

text \<open>
  With the empty relation name among the defaults, \<^verbatim>\<open>Create\<close> on it ends in
  \<^verbatim>\<open>Fatalf\<close> and the trace stays empty: no insert is executed.
\<close>

theorem Create_without_insert_counterexample:
  "defaultRelationValues unnamed_dbMan '''' = Some 0 \<and>
   Create unnamed_dbMan '''' [] ex_world =
     (Inl (''Test setup failed: could not create test record for '' @ quoted ''''
           @ '': insert statements must specify a table''),
      \<lparr>heap = [users_defaults, stamps_defaults, users_defaults], db = (), trace = []\<rparr>)"
proof -
  have k: "defaultRelationValues unnamed_dbMan '''' = Some 0"
    by (simp add: unnamed_dbMan_def)
  have v: "0 < length (heap ex_world)"
    by (simp add: ex_world_simps)
  have t: "ToSql (driver unnamed_dbMan) (InsertStmt b) =
      (if ins_Into b = '''' then Some (Err ''insert statements must specify a table'')
       else None)" for b
    by (simp add: unnamed_dbMan_def needs_table_def)
  have "Create unnamed_dbMan '''' [] ex_world =
      (Inl (''Test setup failed: could not create test record for '' @ quoted ''''
            @ '': insert statements must specify a table''),
       ex_world\<lparr>heap := [users_defaults, stamps_defaults, users_defaults]\<rparr>)"
    by (simp add: Create_def bind_def relationValues_known [OF k v] builder_Query_def t
        insertBuilder_def Fatalf_def ex_world_simps deref_def)
  with k show ?thesis
    by (simp add: ex_world_def)
qed

section \<open>A resolved map of expressions only\<close>

lemma parseSelectValues_all_Sqlizer:
  assumes "\<forall>k v. DAList.lookup resolved k = Some v \<longrightarrow> is_Sqlizer v"
  shows "parseSelectValues resolved = DAList.empty"
proof -
  have "\<not> (\<not> is_Sqlizer v)" if "(k, v) \<in> set (DAList.impl_of resolved)" for k v
    using assms that by (simp add: DAList.lookup.rep_eq)
  then have "filter (\<lambda>(k, v). \<not> is_Sqlizer v) (DAList.impl_of resolved) = []"
    by (auto simp: filter_empty_conv)
  then show ?thesis
    by (simp add: DAList.alist_eq_iff impl_of_parseSelectValues DAList.empty.rep_eq)
qed

lemma select_scan_no_filter:
  assumes "rows \<noteq> []"
  shows "select_scan (checkIfExisting_builder tableName resolved
                        \<lparr>sel_Where := [DAList.empty]\<rparr>) rows = None"
  using assms
  by (cases rows)
    (simp_all add: select_scan_def checkIfExisting_builder_def selectBuilder_def row_matches_def
      DAList.empty.rep_eq Let_def)

text \<open>
  C10. When every value of the resolved map implements \<^verbatim>\<open>sq.Sqlizer\<close>, the equality
  map of the existence check is empty. If the database answers the check as a select
  over the rows of the relation and there is at least one row, whatever its fields hold,
  the check finds a row: the calls are the begin, the check and the commit, and no
  insert is sent.
\<close>

theorem all_expressions_match_any_row:
  assumes "defaultRelationValues dbMan tableName = Some a" and "a < length (heap w)"
    and "h1 = fold (\<lambda>opt h. opt (length (heap w)) h) opts (heap w @ [deref (heap w) a])"
    and "resolved = deref h1 (length (heap w))"
    and "\<forall>k v. DAList.lookup resolved k = Some v \<longrightarrow> is_Sqlizer v"
    and "sel = checkIfExisting_builder tableName resolved"
    and "db_Begin (driver dbMan) (db w) = (None, s1)"
    and "ToSql (driver dbMan) (SelectStmt sel) = None"
    and "tx_QueryRow_Scan (driver dbMan) (SelectStmt sel) s1 = (select_scan sel rows, s2)"
    and "rows \<noteq> []"
  shows "sel_Where sel = [DAList.empty] \<and>
         trace (snd (ResolveTestRecord dbMan tableName stringID opts w)) =
           trace w @ [Begin, QueryRow (SelectStmt sel), Commit]"
proof -
  have e: "parseSelectValues resolved = DAList.empty"
    using assms(5) by (rule parseSelectValues_all_Sqlizer)
  have w: "sel_Where sel = [DAList.empty]"
    by (simp add: assms(6) checkIfExisting_builder_def selectBuilder_def e)
  have "sel = checkIfExisting_builder tableName resolved\<lparr>sel_Where := [DAList.empty]\<rparr>"
    by (simp add: assms(6) checkIfExisting_builder_def selectBuilder_def e)
  then have "select_scan sel rows = None"
    using select_scan_no_filter [OF assms(10)] by simp
  with assms(9) have ck: "tx_QueryRow_Scan (driver dbMan) (SelectStmt sel) s1 = (None, s2)"
    by simp
  have s: "SelectStmt sel = SelectStmt (checkIfExisting_builder tableName resolved)"
    by (simp add: assms(6))
  from ResolveTestRecord_known [OF assms(1,2,3,4) s refl assms(7,8) ck refl, of stringID]
  show ?thesis
    by (simp add: w commit_result)
qed

theorem all_expressions_match_any_row_witness:
  "defaultRelationValues (ex_dbMan scan_one_row None None) ''stamps'' = Some 1 \<and>
   1 < length (heap ex_world) \<and>
   DAList.impl_of stamps_defaults = [(''created_at'', SqlizerV ''CURRENT_TIMESTAMP'')] \<and>
   one_row \<noteq> [] \<and>
   trace (snd (ResolveTestRecord (ex_dbMan scan_one_row None None) ''stamps'' ''id'' []
                 ex_world)) =
     [Begin, QueryRow (SelectStmt (checkIfExisting_builder ''stamps'' stamps_defaults)), Commit]"
proof -
  have h1: "defaultRelationValues (ex_dbMan scan_one_row None None) ''stamps'' = Some 1"
    by (simp add: ex_dbMan_simps)
  have h2: "1 < length (heap ex_world)"
    by (simp add: ex_world_simps)
  have h3: "[users_defaults, stamps_defaults, stamps_defaults] =
      fold (\<lambda>opt h. opt (length (heap ex_world)) h) []
        (heap ex_world @ [deref (heap ex_world) 1])"
    by (simp add: ex_world_simps deref_def)
  have h3': "stamps_defaults =
      deref [users_defaults, stamps_defaults, stamps_defaults] (length (heap ex_world))"
    by (simp add: ex_world_simps deref_def numeral_2_eq_2)
  have h4: "\<forall>k v. DAList.lookup stamps_defaults k = Some v \<longrightarrow> is_Sqlizer v"
    by (simp add: stamps_defaults_def DAList.lookup_update)
  have h6: "db_Begin (driver (ex_dbMan scan_one_row None None)) (db ex_world) = (None, ())"
    by (simp add: ex_dbMan_simps)
  have h7: "ToSql (driver (ex_dbMan scan_one_row None None)) q = None" for q
    by (simp add: ex_dbMan_simps)
  have h8: "tx_QueryRow_Scan (driver (ex_dbMan scan_one_row None None))
              (SelectStmt (checkIfExisting_builder ''stamps'' stamps_defaults)) () =
            (select_scan (checkIfExisting_builder ''stamps'' stamps_defaults) one_row, ())"
    by (simp add: ex_dbMan_simps scan_one_row_def)
  have h9: "one_row \<noteq> []"
    by (simp add: one_row_def)
  have h5: "DAList.impl_of stamps_defaults = [(''created_at'', SqlizerV ''CURRENT_TIMESTAMP'')]"
    by (simp add: stamps_defaults_def DAList.update.rep_eq DAList.empty.rep_eq)
  from all_expressions_match_any_row [OF h1 h2 h3 h3' h4 refl h6 h7 h8 h9, of "''id''"]
    h1 h2 h5 h9
  show ?thesis
    by (simp add: ex_world_simps)
qed

end
